theory Spec2Isabelle
  imports Complex_Main
begin

section \<open>JavaScript numbers\<close>

text \<open>
  A JavaScript number is modelled as a real extended with the three special values of
  IEEE-754 that the script can produce through a division: \<open>Infinity\<close>, \<open>-Infinity\<close> and
  \<open>NaN\<close>. The operations of this section are exact on finite values; the sign of zero is
  not modelled. The state of the stars is modelled with these exact operations throughout.
  Which stars a frame draws depends on the rounding of the cutoff: the drawing of a frame is
  modelled a second time, in binary64 arithmetic, further below.
\<close>

datatype jsnum = Fin real | PInf | NInf | NaN

text \<open>\<open>a / b\<close> on finite operands: a zero divisor gives an infinity or \<open>NaN\<close>.\<close>

definition js_div :: "real \<Rightarrow> real \<Rightarrow> jsnum" where
  "js_div a b =
     (if b \<noteq> 0 then Fin (a / b)
      else if 0 < a then PInf
      else if a < 0 then NInf
      else NaN)"

fun js_add :: "jsnum \<Rightarrow> jsnum \<Rightarrow> jsnum" where
  "js_add NaN _ = NaN"
| "js_add _ NaN = NaN"
| "js_add (Fin a) (Fin b) = Fin (a + b)"
| "js_add PInf NInf = NaN"
| "js_add NInf PInf = NaN"
| "js_add PInf _ = PInf"
| "js_add _ PInf = PInf"
| "js_add NInf _ = NInf"
| "js_add _ NInf = NInf"

fun js_neg :: "jsnum \<Rightarrow> jsnum" where
  "js_neg (Fin a) = Fin (- a)"
| "js_neg PInf = NInf"
| "js_neg NInf = PInf"
| "js_neg NaN = NaN"

fun js_mul :: "jsnum \<Rightarrow> jsnum \<Rightarrow> jsnum" where
  "js_mul NaN _ = NaN"
| "js_mul _ NaN = NaN"
| "js_mul (Fin a) (Fin b) = Fin (a * b)"
| "js_mul (Fin a) b = (if a = 0 then NaN else if 0 < a then b else js_neg b)"
| "js_mul a (Fin b) = (if b = 0 then NaN else if 0 < b then a else js_neg a)"
| "js_mul PInf b = b"
| "js_mul NInf b = js_neg b"

text \<open>\<open>Math.pow(x, n)\<close> for a natural exponent \<open>n\<close>; \<open>Math.pow(x, 0)\<close> is 1 for every \<open>x\<close>.\<close>

fun Math_pow :: "jsnum \<Rightarrow> nat \<Rightarrow> jsnum" where
  "Math_pow (Fin a) n = Fin (a ^ n)"
| "Math_pow PInf n = (if n = 0 then Fin 1 else PInf)"
| "Math_pow NInf n = (if n = 0 then Fin 1 else if even n then PInf else NInf)"
| "Math_pow NaN n = (if n = 0 then Fin 1 else NaN)"

text \<open>\<open>Math.min(a, b)\<close>: \<open>NaN\<close> as soon as one argument is.\<close>

fun Math_min :: "jsnum \<Rightarrow> jsnum \<Rightarrow> jsnum" where
  "Math_min NaN _ = NaN"
| "Math_min _ NaN = NaN"
| "Math_min NInf _ = NInf"
| "Math_min _ NInf = NInf"
| "Math_min PInf b = b"
| "Math_min a PInf = a"
| "Math_min (Fin a) (Fin b) = Fin (min a b)"

text \<open>The comparisons \<open>a < b\<close> and \<open>a <= b\<close>: false as soon as one operand is \<open>NaN\<close>.\<close>

fun js_lt :: "jsnum \<Rightarrow> jsnum \<Rightarrow> bool" where
  "js_lt NaN _ = False"
| "js_lt _ NaN = False"
| "js_lt (Fin a) (Fin b) = (a < b)"
| "js_lt _ NInf = False"
| "js_lt NInf _ = True"
| "js_lt PInf _ = False"
| "js_lt _ PInf = True"

fun js_le :: "jsnum \<Rightarrow> jsnum \<Rightarrow> bool" where
  "js_le NaN _ = False"
| "js_le _ NaN = False"
| "js_le (Fin a) (Fin b) = (a \<le> b)"
| "js_le NInf _ = True"
| "js_le _ PInf = True"
| "js_le _ NInf = False"
| "js_le PInf _ = False"

text \<open>Membership of the closed interval \<open>[0, 1]\<close>, as a number of the script.\<close>

definition in_unit_interval :: "jsnum \<Rightarrow> bool" where
  "in_unit_interval v = (js_le (Fin 0) v \<and> js_le v (Fin 1))"

section \<open>The random source\<close>

text \<open>
  \<open>Math.random()\<close> is modelled by an arbitrary sequence of reals and a counter of the
  draws made so far: the \<open>k\<close>-th call returns \<open>rnd k\<close>. Its contract, a value in
  \<open>[0, 1)\<close>, is the predicate \<open>unit_rand\<close>.
\<close>

type_synonym rand = "nat \<Rightarrow> real"

definition Math_random :: "rand \<Rightarrow> nat \<Rightarrow> real \<times> nat" where
  "Math_random rnd k = (rnd k, Suc k)"


section \<open>The starfield of \<open>initSpaceBackground\<close>\<close>

subsection \<open>Stars\<close>

text \<open>The fields of a \<open>Star\<close> object: \<open>x\<close>, \<open>y\<close>, \<open>z\<close>, \<open>size\<close>, \<open>opacity\<close>,
  \<open>twinkleSpeed\<close> and \<open>twinkleDir\<close>.\<close>

record star =
  star_x :: real
  star_y :: real
  star_z :: real
  star_size :: real
  star_opacity :: real
  star_twinkleSpeed :: real
  star_twinkleDir :: real

text \<open>
  \<open>Star.reset()\<close> assigns every field of the object, so its result does not depend on
  the star it is called on: the model returns the new star and the advanced counter of the
  random source. \<open>w\<close> is the closure variable \<open>width\<close>.
\<close>

definition reset :: "rand \<Rightarrow> real \<Rightarrow> nat \<Rightarrow> star \<times> nat" where
  "reset rnd w k0 =
     (case Math_random rnd k0 of (r1, k1) \<Rightarrow>
      case Math_random rnd k1 of (r2, k2) \<Rightarrow>
      case Math_random rnd k2 of (r3, k3) \<Rightarrow>
      case Math_random rnd k3 of (r4, k4) \<Rightarrow>
      case Math_random rnd k4 of (r5, k5) \<Rightarrow>
        (\<lparr>star_x = r1 * w,
          star_y = - 10,
          star_z = r2 * 2 + 0.5,
          star_size = r3 * 1.5,
          star_opacity = r4 * 0.5 + 0.1,
          star_twinkleSpeed = r5 * 0.05,
          star_twinkleDir = 1\<rparr>, k5))"

text \<open>The constructor: \<open>reset\<close>, then a random \<open>y\<close> over the closure variable \<open>height\<close>.\<close>

definition new_Star :: "rand \<Rightarrow> real \<Rightarrow> real \<Rightarrow> nat \<Rightarrow> star \<times> nat" where
  "new_Star rnd w h k0 =
     (case reset rnd w k0 of (s, k1) \<Rightarrow>
      case Math_random rnd k1 of (r, k2) \<Rightarrow>
        (s\<lparr>star_y := r * h\<rparr>, k2))"

text \<open>\<open>Star.update()\<close>: drift, twinkle with a bounce, and the reset below the bottom edge.
  (\<open>Star.draw()\<close> is never called: \<open>animate\<close> draws the stars itself.)\<close>

definition update :: "rand \<Rightarrow> real \<Rightarrow> real \<Rightarrow> star \<Rightarrow> nat \<Rightarrow> star \<times> nat" where
  "update rnd w h s k =
     (let s1 = s\<lparr>star_y := star_y s + star_z s * 0.2\<rparr>;
          s2 = s1\<lparr>star_opacity := star_opacity s1 + star_twinkleSpeed s1 * star_twinkleDir s1\<rparr>;
          s3 = (if star_opacity s2 > 0.8 \<or> star_opacity s2 < 0.1
                then s2\<lparr>star_twinkleDir := star_twinkleDir s2 * (- 1)\<rparr>
                else s2)
      in if star_y s3 > h then reset rnd w k else (s3, k))"


subsection \<open>The pool and the host window\<close>

text \<open>The closure variables \<open>width\<close>, \<open>height\<close> and \<open>stars\<close>.\<close>

record starfield =
  width :: real
  height :: real
  stars :: "star list"

text \<open>What the script reads of the host page: \<open>window.innerWidth\<close>,
  \<open>window.innerHeight\<close>, \<open>window.scrollY\<close> and \<open>document.body.scrollHeight\<close>.\<close>

record window =
  innerWidth :: real
  innerHeight :: real
  scrollY :: real
  scrollHeight :: real

text \<open>The canvas element: its \<open>width\<close>, \<open>height\<close> and \<open>style.opacity\<close>.\<close>

record canvas =
  canvas_width :: real
  canvas_height :: real
  canvas_opacity :: real

definition baseStarCount :: nat where
  "baseStarCount = 400"

text \<open>The loop of \<open>initStars\<close>: \<open>n\<close> times \<open>stars.push(new Star())\<close>.\<close>

fun push_Stars :: "rand \<Rightarrow> real \<Rightarrow> real \<Rightarrow> nat \<Rightarrow> star list \<Rightarrow> nat \<Rightarrow> star list \<times> nat" where
  "push_Stars rnd w h 0 ss k = (ss, k)"
| "push_Stars rnd w h (Suc n) ss k =
     (case new_Star rnd w h k of (s, k') \<Rightarrow> push_Stars rnd w h n (ss @ [s]) k')"

definition initStars :: "rand \<Rightarrow> starfield \<Rightarrow> canvas \<Rightarrow> nat \<Rightarrow> starfield \<times> canvas \<times> nat" where
  "initStars rnd f c k =
     (case push_Stars rnd (width f) (height f) baseStarCount [] k of (ss, k') \<Rightarrow>
        (f\<lparr>stars := ss\<rparr>, c\<lparr>canvas_opacity := 1\<rparr>, k'))"

definition resize :: "rand \<Rightarrow> window \<Rightarrow> starfield \<Rightarrow> canvas \<Rightarrow> nat \<Rightarrow> starfield \<times> canvas \<times> nat" where
  "resize rnd win f c k =
     (let f1 = f\<lparr>width := innerWidth win, height := innerHeight win\<rparr>;
          c1 = c\<lparr>canvas_width := width f1, canvas_height := height f1\<rparr>
      in initStars rnd f1 c1 k)"

subsection \<open>One frame\<close>

definition maxScroll :: "window \<Rightarrow> real" where
  "maxScroll win = scrollHeight win - innerHeight win"

definition scrollProgress :: "window \<Rightarrow> jsnum" where
  "scrollProgress win = Math_min (js_div (scrollY win) (maxScroll win)) (Fin 1)"

text \<open>The cutoff, with the pool size \<open>n\<close> as a parameter; \<open>animate\<close> calls it with
  \<open>baseStarCount\<close>.\<close>

definition visibleThreshold :: "nat \<Rightarrow> jsnum \<Rightarrow> jsnum" where
  "visibleThreshold n sp =
     js_mul (Fin (real n)) (js_add (Fin 0.1) (js_mul (Math_pow sp 2) (Fin 0.9)))"

definition brightness :: "star \<Rightarrow> jsnum \<Rightarrow> jsnum" where
  "brightness s sp = js_mul (Fin (star_opacity s)) (js_add (Fin 0.5) (js_mul sp (Fin 0.5)))"

text \<open>A filled white circle: centre, radius and the alpha of its fill style.\<close>

datatype circle = Circle real real real jsnum

definition draw_star :: "star \<Rightarrow> jsnum \<Rightarrow> circle" where
  "draw_star s sp = Circle (star_x s) (star_y s) (star_size s) (brightness s sp)"

text \<open>
  The callback of \<open>stars.forEach\<close> in \<open>animate\<close>, at one star and its index: the star is
  updated, then drawn when its index is below the cutoff.
\<close>

definition animate_star ::
  "rand \<Rightarrow> real \<Rightarrow> real \<Rightarrow> jsnum \<Rightarrow> nat \<Rightarrow> star \<Rightarrow> nat \<Rightarrow> star \<times> nat \<times> circle list" where
  "animate_star rnd w h sp i s k =
     (case update rnd w h s k of (s', k') \<Rightarrow>
        (s', k',
         if js_lt (Fin (real i)) (visibleThreshold baseStarCount sp) then [draw_star s' sp]
         else []))"

fun forEach_star ::
  "rand \<Rightarrow> real \<Rightarrow> real \<Rightarrow> jsnum \<Rightarrow> nat \<Rightarrow> star list \<Rightarrow> nat \<Rightarrow> star list \<times> nat \<times> circle list" where
  "forEach_star rnd w h sp i [] k = ([], k, [])"
| "forEach_star rnd w h sp i (s # ss) k =
     (case animate_star rnd w h sp i s k of (s', k', d) \<Rightarrow>
      case forEach_star rnd w h sp (Suc i) ss k' of (ss', k'', ds) \<Rightarrow>
        (s' # ss', k'', d @ ds))"

text \<open>\<open>animate\<close>: the new closure state, the counter of the random source and the circles
  drawn in this frame, in drawing order. The closure state and the counter do not depend on
  the drawing. The circles are those of the exact cutoff: they are the circles of the code
  wherever no rounding is involved, as at a progress of \<open>NaN\<close>; \<open>animate64\<close> below is the
  frame with the cutoff and the alpha as the code rounds them.\<close>

definition animate :: "rand \<Rightarrow> window \<Rightarrow> starfield \<Rightarrow> nat \<Rightarrow> starfield \<times> nat \<times> circle list" where
  "animate rnd win f k =
     (case forEach_star rnd (width f) (height f) (scrollProgress win) 0 (stars f) k of
        (ss, k', ds) \<Rightarrow> (f\<lparr>stars := ss\<rparr>, k', ds))"

text \<open>Successive frames, one window reading for each.\<close>

fun frames :: "rand \<Rightarrow> window list \<Rightarrow> starfield \<Rightarrow> nat \<Rightarrow> starfield \<times> nat" where
  "frames rnd [] f k = (f, k)"
| "frames rnd (win # wins) f k =
     (case animate rnd win f k of (f', k', ds) \<Rightarrow> frames rnd wins f' k')"

text \<open>The counter of the random source once the stars of a prefix of the pool have been
  updated.\<close>

fun rand_after :: "rand \<Rightarrow> real \<Rightarrow> real \<Rightarrow> star list \<Rightarrow> nat \<Rightarrow> nat" where
  "rand_after rnd w h [] k = k"
| "rand_after rnd w h (s # ss) k = rand_after rnd w h ss (snd (update rnd w h s k))"

subsection \<open>Start-up\<close>

text \<open>
  What \<open>document.getElementById('space-canvas')\<close> finds is an argument of the model:
  \<open>None\<close> when the document has no such element, an element that is no canvas (it has no
  method \<open>getContext\<close>), or a canvas together with whether \<open>getContext('2d')\<close> returns a
  context (\<open>True\<close>) or \<open>null\<close> (\<open>False\<close>). The script checks the element and never the
  context, so that a call of a method on \<open>undefined\<close> or \<open>null\<close> raises a \<open>TypeError\<close>.
\<close>

datatype element = CanvasElement canvas bool | OtherElement

datatype js_error = TypeError

text \<open>
  What \<open>initSpaceBackground\<close> leaves behind: the canvas, the closure state, whether
  \<open>resize\<close> is registered as a listener and whether a next frame is requested (the pixels
  of the first frame are not recorded here). The result is this state, if any was built, the
  error raised, if any, and the counter of the random source. Without a context the first
  statement of \<open>animate\<close>, \<open>ctx.clearRect\<close>, raises the error: \<open>resize\<close> is then
  registered and has run, no star is updated and no frame is requested.
\<close>

record background =
  bg_canvas :: canvas
  bg_field :: starfield
  bg_resize_listener :: bool
  bg_frame_requested :: bool

definition initSpaceBackground ::
  "rand \<Rightarrow> window \<Rightarrow> element option \<Rightarrow> nat \<Rightarrow> background option \<times> js_error option \<times> nat" where
  "initSpaceBackground rnd win el k =
     (case el of
        None \<Rightarrow> (None, None, k)
      | Some OtherElement \<Rightarrow> (None, Some TypeError, k)
      | Some (CanvasElement c has_2d) \<Rightarrow>
          (case resize rnd win \<lparr>width = 0, height = 0, stars = []\<rparr> c k of (f, c', k1) \<Rightarrow>
           if \<not> has_2d
           then (Some \<lparr>bg_canvas = c', bg_field = f, bg_resize_listener = True,
                       bg_frame_requested = False\<rparr>, Some TypeError, k1)
           else (case animate rnd win f k1 of (f', k2, ds) \<Rightarrow>
                   (Some \<lparr>bg_canvas = c', bg_field = f', bg_resize_listener = True,
                           bg_frame_requested = True\<rparr>, None, k2))))"

subsection \<open>The state of the twinkle\<close>


section \<open>The frame in binary64 arithmetic\<close>

text \<open>
  Which stars a frame draws depends on the last bit of the cutoff, so the drawing of a frame
  is modelled a second time with the arithmetic of the code: every operation on numbers is
  the exact operation followed by the rounding of IEEE-754 binary64, to the nearest value,
  ties to the even one. \<open>expo\<close> is the binary exponent of a positive real, not below that of
  the subnormal numbers; \<open>rd\<close> rounds a real to the grid of that exponent, and \<open>round64\<close>
  adds the overflow to an infinity. The sign of zero is not modelled.
\<close>

function expo_up :: "real \<Rightarrow> int \<Rightarrow> int" where
  "expo_up x e = (if x < 2 then e else expo_up (x / 2) (e + 1))"
  by pat_completeness auto
termination
proof (relation "measure (\<lambda>(x, e). nat \<lceil>x\<rceil>)")
  show "wf (measure (\<lambda>(x::real, e::int). nat \<lceil>x\<rceil>))" by simp
next
  fix x :: real and e :: int
  assume "\<not> x < 2"
  then have "x / 2 \<le> x - 1" by simp
  then have "\<lceil>x / 2\<rceil> \<le> \<lceil>x - 1\<rceil>" by (rule ceiling_mono)
  moreover have "0 < \<lceil>x\<rceil>" using \<open>\<not> x < 2\<close> by simp
  ultimately show "((x / 2, e + 1), (x, e)) \<in> measure (\<lambda>(x, e). nat \<lceil>x\<rceil>)"
    by simp
qed

function expo_down :: "real \<Rightarrow> int \<Rightarrow> int" where
  "expo_down x e = (if 1 \<le> x \<or> e \<le> - 1022 then e else expo_down (x * 2) (e - 1))"
  by pat_completeness auto
termination
  by (relation "measure (\<lambda>(x, e). nat (e + 1022))") auto

definition expo :: "real \<Rightarrow> int" where
  "expo x = (if 1 \<le> x then expo_up x 0 else expo_down x 0)"

definition round_even :: "real \<Rightarrow> int" where
  "round_even r =
     (let f = \<lfloor>r\<rfloor>
      in if r - of_int f < 1 / 2 then f
         else if 1 / 2 < r - of_int f then f + 1
         else if even f then f else f + 1)"

definition rd :: "real \<Rightarrow> real" where
  "rd x =
     (if x = 0 then 0
      else (let u = expo \<bar>x\<bar> - 52
            in sgn x * of_int (round_even (\<bar>x\<bar> / 2 powi u)) * 2 powi u))"

declare expo_up.simps [simp del] expo_down.simps [simp del]

fun round64 :: "jsnum \<Rightarrow> jsnum" where
  "round64 (Fin x) =
     (if 2 ^ 1024 \<le> \<bar>rd x\<bar> then (if 0 < x then PInf else NInf) else Fin (rd x))"
| "round64 v = v"

declare round64.simps(1) [simp del]

definition js_div64 :: "real \<Rightarrow> real \<Rightarrow> jsnum" where
  "js_div64 a b = round64 (js_div a b)"

definition js_add64 :: "jsnum \<Rightarrow> jsnum \<Rightarrow> jsnum" where
  "js_add64 a b = round64 (js_add a b)"

definition js_mul64 :: "jsnum \<Rightarrow> jsnum \<Rightarrow> jsnum" where
  "js_mul64 a b = round64 (js_mul a b)"

text \<open>
  \<open>Math.pow(x, 2)\<close>. ECMAScript fixes the result at zero, at the infinities and at
  \<open>NaN\<close>, and leaves it to the engine elsewhere (an approximation of the square): the
  engine's function on the finite numbers other than zero is the parameter \<open>pw\<close>.
  \<open>square64\<close> is the correctly rounded square, the value of \<open>x * x\<close>.
\<close>

fun Math_pow2 :: "(real \<Rightarrow> jsnum) \<Rightarrow> jsnum \<Rightarrow> jsnum" where
  "Math_pow2 pw (Fin a) = (if a = 0 then Fin 0 else pw a)"
| "Math_pow2 pw PInf = PInf"
| "Math_pow2 pw NInf = PInf"
| "Math_pow2 pw NaN = NaN"


text \<open>
  The lines 94 to 96, 109 and 114 of the script. \<open>scrollHeight\<close> and \<open>innerHeight\<close> are
  integers of the DOM, so that their difference is exact; a decimal literal stands for the
  binary64 number nearest to it.
\<close>

definition scrollProgress64 :: "window \<Rightarrow> jsnum" where
  "scrollProgress64 win = Math_min (js_div64 (scrollY win) (maxScroll win)) (Fin 1)"

definition visibleThreshold64 :: "(real \<Rightarrow> jsnum) \<Rightarrow> nat \<Rightarrow> jsnum \<Rightarrow> jsnum" where
  "visibleThreshold64 pw n sp =
     js_mul64 (Fin (real n))
       (js_add64 (Fin (rd 0.1)) (js_mul64 (Math_pow2 pw sp) (Fin (rd 0.9))))"

definition brightness64 :: "star \<Rightarrow> jsnum \<Rightarrow> jsnum" where
  "brightness64 s sp =
     js_mul64 (Fin (star_opacity s)) (js_add64 (Fin (rd 0.5)) (js_mul64 sp (Fin (rd 0.5))))"

definition draw_star64 :: "star \<Rightarrow> jsnum \<Rightarrow> circle" where
  "draw_star64 s sp = Circle (star_x s) (star_y s) (star_size s) (brightness64 s sp)"

definition animate_star64 ::
  "(real \<Rightarrow> jsnum) \<Rightarrow> rand \<Rightarrow> real \<Rightarrow> real \<Rightarrow> jsnum \<Rightarrow> nat \<Rightarrow> star \<Rightarrow> nat
     \<Rightarrow> star \<times> nat \<times> circle list" where
  "animate_star64 pw rnd w h sp i s k =
     (case update rnd w h s k of (s', k') \<Rightarrow>
        (s', k',
         if js_lt (Fin (real i)) (visibleThreshold64 pw baseStarCount sp)
         then [draw_star64 s' sp]
         else []))"

fun forEach_star64 ::
  "(real \<Rightarrow> jsnum) \<Rightarrow> rand \<Rightarrow> real \<Rightarrow> real \<Rightarrow> jsnum \<Rightarrow> nat \<Rightarrow> star list \<Rightarrow> nat
     \<Rightarrow> star list \<times> nat \<times> circle list" where
  "forEach_star64 pw rnd w h sp i [] k = ([], k, [])"
| "forEach_star64 pw rnd w h sp i (s # ss) k =
     (case animate_star64 pw rnd w h sp i s k of (s', k', d) \<Rightarrow>
      case forEach_star64 pw rnd w h sp (Suc i) ss k' of (ss', k'', ds) \<Rightarrow>
        (s' # ss', k'', d @ ds))"

definition animate64 ::
  "(real \<Rightarrow> jsnum) \<Rightarrow> rand \<Rightarrow> window \<Rightarrow> starfield \<Rightarrow> nat \<Rightarrow> starfield \<times> nat \<times> circle list" where
  "animate64 pw rnd win f k =
     (case forEach_star64 pw rnd (width f) (height f) (scrollProgress64 win) 0 (stars f) k of
        (ss, k', ds) \<Rightarrow> (f\<lparr>stars := ss\<rparr>, k', ds))"

section \<open>The glyph rain of \<open>toggleMatrixMode\<close>\<close>

text \<open>
  One call of \<open>startMatrixRain\<close> creates a canvas, an array \<open>rainDrops\<close> and a repeating
  timer whose callback \<open>draw\<close> closes over both. The model numbers the calls: the number
  identifies the canvas element, the closure and the handle that \<open>setInterval\<close> returns.
  A glyph is the index of its character in \<open>alphabet\<close> (94 + 26 + 10 characters).
\<close>

definition fontSize :: real where
  "fontSize = 16"

definition alphabet_length :: nat where
  "alphabet_length = 130"

record rain =
  rain_canvas_width :: real
  rain_canvas_height :: real
  rainDrops :: "real list"

datatype rain_cmd = FillRect real real | FillText nat real real

text \<open>The loop of \<open>draw\<close> over the columns; the second \<open>Math.random()\<close> is only drawn
  when the drop is below the canvas (\<open>&&\<close> does not evaluate its right operand otherwise).\<close>

fun draw_drops ::
  "rand \<Rightarrow> real \<Rightarrow> nat \<Rightarrow> real list \<Rightarrow> nat \<Rightarrow> real list \<times> nat \<times> rain_cmd list" where
  "draw_drops rnd ch i [] k = ([], k, [])"
| "draw_drops rnd ch i (d # ds) k =
     (case Math_random rnd k of (r1, k1) \<Rightarrow>
      case (if d * fontSize > ch
            then (case Math_random rnd k1 of (r2, k2) \<Rightarrow> (if r2 > 0.975 then 0 else d, k2))
            else (d, k1)) of (d1, k2) \<Rightarrow>
      case draw_drops rnd ch (Suc i) ds k2 of (ds', k3, cmds) \<Rightarrow>
        ((d1 + 1) # ds', k3,
         FillText (nat \<lfloor>r1 * real alphabet_length\<rfloor>) (real i * fontSize) (d * fontSize) # cmds))"

definition draw :: "rand \<Rightarrow> rain \<Rightarrow> nat \<Rightarrow> rain \<times> nat \<times> rain_cmd list" where
  "draw rnd r k =
     (case draw_drops rnd (rain_canvas_height r) 0 (rainDrops r) k of (ds, k', cmds) \<Rightarrow>
        (r\<lparr>rainDrops := ds\<rparr>, k',
         FillRect (rain_canvas_width r) (rain_canvas_height r) # cmds))"

text \<open>
  The part of the page the rain touches: whether \<open>document.body\<close> has the class
  \<open>matrix-mode\<close>, the global \<open>matrixInterval\<close> (\<open>None\<close> while it is \<open>undefined\<close>), the
  elements with the id \<open>matrix-rain\<close> in document order, the handles of the repeating timers
  that are active, the closures created so far, and the closures whose canvas a resize of the
  window resizes.
\<close>

record page =
  matrix_mode :: bool
  matrixInterval :: "nat option"
  next_id :: nat
  overlays :: "nat list"
  intervals :: "nat list"
  rains :: "nat \<Rightarrow> rain option"
  resize_listeners :: "nat list"

definition initial_page :: "bool \<Rightarrow> page" where
  "initial_page m =
     \<lparr>matrix_mode = m, matrixInterval = None, next_id = 1, overlays = [], intervals = [],
      rains = (\<lambda>n. None), resize_listeners = []\<rparr>"

definition startMatrixRain :: "window \<Rightarrow> page \<Rightarrow> page" where
  "startMatrixRain win pg =
     (let n = next_id pg;
          columns = innerWidth win / fontSize;
          r = \<lparr>rain_canvas_width = innerWidth win, rain_canvas_height = innerHeight win,
               rainDrops = replicate (nat \<lceil>columns\<rceil>) 1\<rparr>
      in pg\<lparr>next_id := Suc n,
            overlays := overlays pg @ [n],
            rains := (rains pg)(n := Some r),
            intervals := intervals pg @ [n],
            matrixInterval := Some n,
            resize_listeners := resize_listeners pg @ [n]\<rparr>)"

text \<open>\<open>clearInterval\<close> of a handle that is not active, or of \<open>undefined\<close>, does nothing;
  \<open>document.getElementById\<close> finds the first element with the id.\<close>

definition clearInterval :: "nat option \<Rightarrow> page \<Rightarrow> page" where
  "clearInterval t pg =
     (case t of None \<Rightarrow> pg | Some n \<Rightarrow> pg\<lparr>intervals := removeAll n (intervals pg)\<rparr>)"

definition stopMatrixRain :: "page \<Rightarrow> page" where
  "stopMatrixRain pg =
     (let pg1 = clearInterval (matrixInterval pg) pg
      in case overlays pg1 of [] \<Rightarrow> pg1 | c # cs \<Rightarrow> pg1\<lparr>overlays := cs\<rparr>)"

definition toggleMatrixMode :: "window \<Rightarrow> page \<Rightarrow> page" where
  "toggleMatrixMode win pg =
     (let pg1 = pg\<lparr>matrix_mode := \<not> matrix_mode pg\<rparr>
      in if matrix_mode pg1 then startMatrixRain win pg1 else stopMatrixRain pg1)"

text \<open>The timer with handle \<open>t\<close> fires: its \<open>draw\<close> runs when the timer is active.\<close>

definition interval_fires :: "rand \<Rightarrow> nat \<Rightarrow> page \<Rightarrow> nat \<Rightarrow> page \<times> nat \<times> rain_cmd list" where
  "interval_fires rnd t pg k =
     (if t \<in> set (intervals pg)
      then (case rains pg t of
              None \<Rightarrow> (pg, k, [])
            | Some r \<Rightarrow>
                (case draw rnd r k of (r', k', cmds) \<Rightarrow>
                   (pg\<lparr>rains := (rains pg)(t := Some r')\<rparr>, k', cmds)))
      else (pg, k, []))"

text \<open>The resize listeners of the rain: each sets the size of its own canvas.\<close>

definition rain_resize :: "window \<Rightarrow> page \<Rightarrow> page" where
  "rain_resize win pg =
     pg\<lparr>rains := (\<lambda>n. if n \<in> set (resize_listeners pg)
                        then map_option (\<lambda>r. r\<lparr>rain_canvas_width := innerWidth win,
                                                rain_canvas_height := innerHeight win\<rparr>)
                               (rains pg n)
                        else rains pg n)\<rparr>"

text \<open>
  What happens to the page: the key listener of \<open>initKonamiCode\<close> completes the sequence
  and calls \<open>toggleMatrixMode\<close>, a timer fires, or the window is resized.
\<close>

datatype event = KonamiCode window | IntervalFires nat | WindowResize window

fun run :: "rand \<Rightarrow> event list \<Rightarrow> page \<Rightarrow> nat \<Rightarrow> page \<times> nat" where
  "run rnd [] pg k = (pg, k)"
| "run rnd (KonamiCode win # evs) pg k = run rnd evs (toggleMatrixMode win pg) k"
| "run rnd (IntervalFires t # evs) pg k =
     (case interval_fires rnd t pg k of (pg', k', cmds) \<Rightarrow> run rnd evs pg' k')"
| "run rnd (WindowResize win # evs) pg k = run rnd evs (rain_resize win pg) k"

text \<open>The invariant of the page: no rain at all, or the one rain that \<open>matrixInterval\<close>
  names, with the class set.\<close>

definition rain_inv :: "page \<Rightarrow> bool" where
  "rain_inv pg =
     (overlays pg = [] \<and> intervals pg = []
      \<or> matrix_mode pg \<and>
        (case matrixInterval pg of
           None \<Rightarrow> False
         | Some n \<Rightarrow> overlays pg = [n] \<and> intervals pg = [n]))"

section \<open>Properties of a single star\<close>

lemma reset_eq:
  "reset rnd w k =
     (\<lparr>star_x = rnd k * w, star_y = - 10, star_z = rnd (k + 1) * 2 + 0.5,
       star_size = rnd (k + 2) * 1.5, star_opacity = rnd (k + 3) * 0.5 + 0.1,
       star_twinkleSpeed = rnd (k + 4) * 0.05, star_twinkleDir = 1\<rparr>, k + 5)"
  by (simp add: reset_def Math_random_def eval_nat_numeral)

lemma new_Star_eq:
  "new_Star rnd w h k =
     (\<lparr>star_x = rnd k * w, star_y = rnd (k + 5) * h, star_z = rnd (k + 1) * 2 + 0.5,
       star_size = rnd (k + 2) * 1.5, star_opacity = rnd (k + 3) * 0.5 + 0.1,
       star_twinkleSpeed = rnd (k + 4) * 0.05, star_twinkleDir = 1\<rparr>, k + 6)"
  by (simp add: new_Star_def reset_eq Math_random_def)




section \<open>Properties of the pool and of a frame\<close>

text \<open>The second equation of \<open>forEach_star\<close>, with projections in place of patterns.\<close>

lemma forEach_star_Cons:
  "forEach_star rnd w h sp i (s # ss) k =
     (fst (update rnd w h s k) # fst (forEach_star rnd w h sp (Suc i) ss (snd (update rnd w h s k))),
      fst (snd (forEach_star rnd w h sp (Suc i) ss (snd (update rnd w h s k)))),
      (if js_lt (Fin (real i)) (visibleThreshold baseStarCount sp)
       then [draw_star (fst (update rnd w h s k)) sp] else [])
      @ snd (snd (forEach_star rnd w h sp (Suc i) ss (snd (update rnd w h s k)))))"
  by (simp add: animate_star_def split: prod.splits)

lemma forEach_star_length:
  "length (fst (forEach_star rnd w h sp i ss k)) = length ss"
  by (induction ss arbitrary: i k) (simp_all add: forEach_star_Cons del: forEach_star.simps(2))

lemma forEach_star_rand:
  "fst (snd (forEach_star rnd w h sp i ss k)) = rand_after rnd w h ss k"
  by (induction ss arbitrary: i k) (simp_all add: forEach_star_Cons del: forEach_star.simps(2))


lemma forEach_star_drawn:
  "snd (snd (forEach_star rnd w h sp i ss k)) =
   map (\<lambda>j. draw_star (fst (forEach_star rnd w h sp i ss k) ! (j - i)) sp)
     (filter (\<lambda>j. js_lt (Fin (real j)) (visibleThreshold baseStarCount sp)) [i..<i + length ss])"
proof (induction ss arbitrary: i k)
  case Nil
  then show ?case by simp
next
  case (Cons s ss)
  let ?u = "update rnd w h s k"
  let ?r = "forEach_star rnd w h sp (Suc i) ss (snd ?u)"
  let ?P = "\<lambda>j. js_lt (Fin (real j)) (visibleThreshold baseStarCount sp)"
  have ih: "snd (snd ?r) = map (\<lambda>j. draw_star (fst ?r ! (j - Suc i)) sp)
     (filter ?P [Suc i..<Suc i + length ss])"
    by (rule Cons.IH)
  have nth: "(fst ?u # fst ?r) ! (j - i) = fst ?r ! (j - Suc i)" if "Suc i \<le> j" for j
  proof -
    from that have "j - i = Suc (j - Suc i)" by simp
    then show ?thesis by simp
  qed
  have shift: "map (\<lambda>j. draw_star (fst ?r ! (j - Suc i)) sp) (filter ?P [Suc i..<Suc i + length ss])
     = map (\<lambda>j. draw_star ((fst ?u # fst ?r) ! (j - i)) sp) (filter ?P [Suc i..<Suc i + length ss])"
  proof (rule map_cong[OF refl])
    fix j assume "j \<in> set (filter ?P [Suc i..<Suc i + length ss])"
    then have "Suc i \<le> j" by (simp del: upt_Suc)
    then show "draw_star (fst ?r ! (j - Suc i)) sp = draw_star ((fst ?u # fst ?r) ! (j - i)) sp"
      by (simp only: nth)
  qed
  have upt: "[i..<i + length (s # ss)] = i # [Suc i..<Suc i + length ss]"
    by (simp add: upt_conv_Cons del: upt_Suc)
  show ?case
    unfolding upt forEach_star_Cons using ih shift by (simp del: upt_Suc)
qed

lemma animate_stars:
  "stars (fst (animate rnd win f k)) =
     fst (forEach_star rnd (width f) (height f) (scrollProgress win) 0 (stars f) k)"
  by (simp add: animate_def split_def)

lemma animate_width_height:
  "width (fst (animate rnd win f k)) = width f \<and> height (fst (animate rnd win f k)) = height f"
  by (simp add: animate_def split_def)

lemma animate_drawn:
  "snd (snd (animate rnd win f k)) =
     snd (snd (forEach_star rnd (width f) (height f) (scrollProgress win) 0 (stars f) k))"
  by (simp add: animate_def split_def)

lemma frames_Cons:
  "frames rnd (win # wins) f k =
     frames rnd wins (fst (animate rnd win f k)) (fst (snd (animate rnd win f k)))"
  by (simp add: split_def)

lemma frames_length:
  "length (stars (fst (frames rnd wins f k))) = length (stars f)"
proof (induction wins arbitrary: f k)
  case Nil
  then show ?case by simp
next
  case (Cons win wins)
  show ?case
    by (simp only: frames_Cons Cons.IH animate_stars forEach_star_length)
qed

lemma push_Stars_eq:
  "push_Stars rnd w h n ss k =
     (ss @ map (\<lambda>i. fst (new_Star rnd w h (k + 6 * i))) [0..<n], k + 6 * n)"
proof (induction n arbitrary: ss k)
  case 0
  then show ?case by simp
next
  case (Suc n)
  have "map (\<lambda>i. fst (new_Star rnd w h (k + 6 * i))) [0..<Suc n]
      = fst (new_Star rnd w h k) # map (\<lambda>i. fst (new_Star rnd w h (k + 6 + 6 * i))) [0..<n]"
    by (simp add: upt_conv_Cons map_Suc_upt[symmetric] add.assoc del: upt_Suc)
  then show ?case
    by (simp add: Suc.IH new_Star_eq del: upt_Suc)
qed

lemma initStars_stars:
  "stars (fst (initStars rnd f c k)) =
     map (\<lambda>i. fst (new_Star rnd (width f) (height f) (k + 6 * i))) [0..<baseStarCount]"
  by (simp add: initStars_def push_Stars_eq)

lemma resize_stars:
  "stars (fst (resize rnd win f c k)) =
     map (\<lambda>i. fst (new_Star rnd (innerWidth win) (innerHeight win) (k + 6 * i))) [0..<baseStarCount]"
  by (simp add: resize_def Let_def initStars_stars)


lemma brightness_Fin:
  "brightness s (Fin p) = Fin (star_opacity s * (0.5 + p * 0.5))"
  by (simp add: brightness_def)



lemma animate_drawn_eq:
  "snd (snd (animate rnd win f k)) =
     map (\<lambda>j. draw_star (stars (fst (animate rnd win f k)) ! j) (scrollProgress win))
       (filter (\<lambda>j. js_lt (Fin (real j)) (visibleThreshold baseStarCount (scrollProgress win)))
          [0..<length (stars f)])"
  unfolding animate_drawn animate_stars
  using forEach_star_drawn[of rnd "width f" "height f" "scrollProgress win" 0 "stars f" k]
  by simp

section \<open>The bounce of the opacity\<close>








section \<open>Properties of the glyph rain\<close>

lemma stopMatrixRain_intervals:
  "intervals (stopMatrixRain pg) =
     (case matrixInterval pg of None \<Rightarrow> intervals pg | Some n \<Rightarrow> removeAll n (intervals pg))"
  by (simp add: stopMatrixRain_def clearInterval_def Let_def split: option.splits list.splits)

lemma stopMatrixRain_overlays:
  "overlays (stopMatrixRain pg) = tl (overlays pg)"
  by (simp add: stopMatrixRain_def clearInterval_def Let_def split: option.splits list.splits)

lemma stopMatrixRain_other:
  "matrix_mode (stopMatrixRain pg) = matrix_mode pg
   \<and> matrixInterval (stopMatrixRain pg) = matrixInterval pg"
  by (simp add: stopMatrixRain_def clearInterval_def Let_def split: option.splits list.splits)

lemma rain_inv_initial: "rain_inv (initial_page m)"
  by (simp add: rain_inv_def initial_page_def)

lemma rain_inv_stop:
  "rain_inv pg \<Longrightarrow> overlays (stopMatrixRain pg) = [] \<and> intervals (stopMatrixRain pg) = []"
  by (auto simp: rain_inv_def stopMatrixRain_intervals stopMatrixRain_overlays split: option.splits)

lemma rain_inv_toggle:
  assumes "rain_inv pg"
  shows "rain_inv (toggleMatrixMode win pg)"
proof (cases "matrix_mode pg")
  case True
  then have t: "toggleMatrixMode win pg = stopMatrixRain (pg\<lparr>matrix_mode := False\<rparr>)"
    by (simp add: toggleMatrixMode_def)
  from assms have "rain_inv (pg\<lparr>matrix_mode := False\<rparr>) \<or>
    (\<exists>n. matrixInterval pg = Some n \<and> overlays pg = [n] \<and> intervals pg = [n])"
    by (auto simp: rain_inv_def split: option.splits)
  then show ?thesis
    unfolding t
    by (auto simp: rain_inv_def stopMatrixRain_intervals stopMatrixRain_overlays split: option.splits)
next
  case False
  with assms have e: "overlays pg = []" "intervals pg = []"
    by (auto simp: rain_inv_def)
  from False have t: "toggleMatrixMode win pg = startMatrixRain win (pg\<lparr>matrix_mode := True\<rparr>)"
    by (simp add: toggleMatrixMode_def)
  show ?thesis
    unfolding t by (simp add: rain_inv_def startMatrixRain_def Let_def e)
qed

lemma interval_fires_frame:
  "matrix_mode (fst (interval_fires rnd t pg k)) = matrix_mode pg
   \<and> matrixInterval (fst (interval_fires rnd t pg k)) = matrixInterval pg
   \<and> overlays (fst (interval_fires rnd t pg k)) = overlays pg
   \<and> intervals (fst (interval_fires rnd t pg k)) = intervals pg"
  by (simp add: interval_fires_def split_def split: option.splits)

lemma rain_inv_fires: "rain_inv pg \<Longrightarrow> rain_inv (fst (interval_fires rnd t pg k))"
  by (simp add: rain_inv_def interval_fires_frame split: option.splits)

lemma rain_inv_resize: "rain_inv pg \<Longrightarrow> rain_inv (rain_resize win pg)"
  by (simp add: rain_inv_def rain_resize_def split: option.splits)

lemma rain_inv_run: "rain_inv pg \<Longrightarrow> rain_inv (fst (run rnd evs pg k))"
proof (induction evs arbitrary: pg k)
  case Nil
  then show ?case by simp
next
  case (Cons ev evs)
  show ?case
  proof (cases ev)
    case (KonamiCode win)
    with Cons.IH[OF rain_inv_toggle[OF Cons.prems]] show ?thesis by simp
  next
    case (IntervalFires t)
    with Cons.IH[OF rain_inv_fires[OF Cons.prems]] show ?thesis by (simp add: split_def)
  next
    case (WindowResize win)
    with Cons.IH[OF rain_inv_resize[OF Cons.prems]] show ?thesis by simp
  qed
qed

lemma interval_fires_idle:
  "intervals pg = [] \<Longrightarrow> interval_fires rnd t pg k = (pg, k, [])"
  by (simp add: interval_fires_def)

section \<open>Properties of the rounding\<close>







lemma round_even_bounds: "0 \<le> r \<Longrightarrow> 0 \<le> round_even r \<and> of_int (round_even r) \<le> r + 1"
  unfolding round_even_def Let_def
  by (auto simp: le_floor_iff) linarith+






lemma rd_nonneg: "0 \<le> x \<Longrightarrow> 0 \<le> rd x"
proof (cases "x = 0")
  case True
  then show ?thesis by (simp add: rd_def)
next
  case False
  assume "0 \<le> x"
  with False have pos: "0 < x" by simp
  define u where "u = expo \<bar>x\<bar> - 52"
  have "0 \<le> \<bar>x\<bar> / 2 powi u" by simp
  then have "0 \<le> round_even (\<bar>x\<bar> / 2 powi u)"
    using round_even_bounds by blast
  then have "0 \<le> of_int (round_even (\<bar>x\<bar> / 2 powi u)) * (2::real) powi u"
    by simp
  with pos show ?thesis
    by (simp add: rd_def Let_def u_def)
qed

section \<open>Properties of the frame in binary64 arithmetic\<close>

lemma forEach_star64_Cons:
  "forEach_star64 pw rnd w h sp i (s # ss) k =
     (fst (update rnd w h s k)
        # fst (forEach_star64 pw rnd w h sp (Suc i) ss (snd (update rnd w h s k))),
      fst (snd (forEach_star64 pw rnd w h sp (Suc i) ss (snd (update rnd w h s k)))),
      (if js_lt (Fin (real i)) (visibleThreshold64 pw baseStarCount sp)
       then [draw_star64 (fst (update rnd w h s k)) sp] else [])
      @ snd (snd (forEach_star64 pw rnd w h sp (Suc i) ss (snd (update rnd w h s k)))))"
  by (simp add: animate_star64_def split: prod.splits)



lemma forEach_star64_drawn:
  "snd (snd (forEach_star64 pw rnd w h sp i ss k)) =
   map (\<lambda>j. draw_star64 (fst (forEach_star64 pw rnd w h sp i ss k) ! (j - i)) sp)
     (filter (\<lambda>j. js_lt (Fin (real j)) (visibleThreshold64 pw baseStarCount sp))
        [i..<i + length ss])"
proof (induction ss arbitrary: i k)
  case Nil
  then show ?case by simp
next
  case (Cons s ss)
  let ?u = "update rnd w h s k"
  let ?r = "forEach_star64 pw rnd w h sp (Suc i) ss (snd ?u)"
  let ?P = "\<lambda>j. js_lt (Fin (real j)) (visibleThreshold64 pw baseStarCount sp)"
  have ih: "snd (snd ?r) = map (\<lambda>j. draw_star64 (fst ?r ! (j - Suc i)) sp)
     (filter ?P [Suc i..<Suc i + length ss])"
    by (rule Cons.IH)
  have nth: "(fst ?u # fst ?r) ! (j - i) = fst ?r ! (j - Suc i)" if "Suc i \<le> j" for j
  proof -
    from that have "j - i = Suc (j - Suc i)" by simp
    then show ?thesis by simp
  qed
  have shift: "map (\<lambda>j. draw_star64 (fst ?r ! (j - Suc i)) sp)
       (filter ?P [Suc i..<Suc i + length ss])
     = map (\<lambda>j. draw_star64 ((fst ?u # fst ?r) ! (j - i)) sp)
       (filter ?P [Suc i..<Suc i + length ss])"
  proof (rule map_cong[OF refl])
    fix j assume "j \<in> set (filter ?P [Suc i..<Suc i + length ss])"
    then have "Suc i \<le> j" by (simp del: upt_Suc)
    then show "draw_star64 (fst ?r ! (j - Suc i)) sp
        = draw_star64 ((fst ?u # fst ?r) ! (j - i)) sp"
      by (simp only: nth)
  qed
  have upt: "[i..<i + length (s # ss)] = i # [Suc i..<Suc i + length ss]"
    by (simp add: upt_conv_Cons del: upt_Suc)
  show ?case
    unfolding upt forEach_star64_Cons using ih shift by (simp del: upt_Suc)
qed

lemma animate64_drawn_eq:
  "snd (snd (animate64 pw rnd win f k)) =
     map (\<lambda>j. draw_star64 (stars (fst (animate64 pw rnd win f k)) ! j) (scrollProgress64 win))
       (filter (\<lambda>j. js_lt (Fin (real j))
                  (visibleThreshold64 pw baseStarCount (scrollProgress64 win)))
          [0..<length (stars f)])"
  using forEach_star64_drawn[of pw rnd "width f" "height f" "scrollProgress64 win" 0 "stars f" k]
  by (simp add: animate64_def split_def)







text \<open>On a page exactly as tall as the viewport, at the top, the progress is \<open>NaN\<close> in
  binary64 arithmetic as well, and nothing is drawn.\<close>

lemma animate64_degenerate:
  "scrollProgress64 \<lparr>innerWidth = 1280, innerHeight = 800, scrollY = 0, scrollHeight = 800\<rparr> = NaN
   \<and> snd (snd (animate64 pw rnd
         \<lparr>innerWidth = 1280, innerHeight = 800, scrollY = 0, scrollHeight = 800\<rparr> f k)) = []"
proof -
  let ?win = "\<lparr>innerWidth = 1280, innerHeight = 800, scrollY = 0, scrollHeight = 800\<rparr>"
  have n: "scrollProgress64 ?win = NaN"
    by (simp add: scrollProgress64_def maxScroll_def js_div64_def js_div_def)
  have "snd (snd (animate64 pw rnd ?win f k)) = []"
    unfolding animate64_drawn_eq[of pw rnd ?win f k] n
    by (simp add: visibleThreshold64_def js_mul64_def js_add64_def)
  with n show ?thesis by (rule conjI)
qed

section \<open>The visibility and density policy\<close>







text \<open>
  Where the page is taller than the viewport and the scroll offset is not negative, the
  scroll progress is the quotient cut at 1, a value of \<open>[0, 1]\<close>.
\<close>

lemma scrollProgress_range:
  assumes "0 < maxScroll win" and "0 \<le> scrollY win"
  shows "scrollProgress win = Fin (min (scrollY win / maxScroll win) 1)
         \<and> in_unit_interval (scrollProgress win)"
  using assms by (simp add: scrollProgress_def js_div_def in_unit_interval_def)

lemma scrollProgress_range_witness:
  "0 < maxScroll \<lparr>innerWidth = 1280, innerHeight = 800, scrollY = 400, scrollHeight = 2400\<rparr>
   \<and> 0 \<le> scrollY \<lparr>innerWidth = 1280, innerHeight = 800, scrollY = 400, scrollHeight = 2400\<rparr>
   \<and> scrollProgress \<lparr>innerWidth = 1280, innerHeight = 800, scrollY = 400, scrollHeight = 2400\<rparr>
       = Fin (1 / 4)
   \<and> in_unit_interval
         (scrollProgress \<lparr>innerWidth = 1280, innerHeight = 800, scrollY = 400, scrollHeight = 2400\<rparr>)"
proof -
  let ?win = "\<lparr>innerWidth = 1280, innerHeight = 800, scrollY = 400, scrollHeight = 2400\<rparr>"
  have a: "0 < maxScroll ?win" by (simp add: maxScroll_def)
  have b: "0 \<le> scrollY ?win" by simp
  note t = scrollProgress_range[OF a b]
  have "min (scrollY ?win / maxScroll ?win) 1 = 1 / 4" by (simp add: maxScroll_def)
  with t have c: "scrollProgress ?win = Fin (1 / 4)" by (simp only:)
  from t have d: "in_unit_interval (scrollProgress ?win)" by blast
  from a b c d show ?thesis by blast
qed

text \<open>
  The same holds in binary64 arithmetic: where the page is taller than the viewport and the
  scroll offset is not negative, the scroll progress the code computes is in \<open>[0, 1]\<close>.
\<close>

lemma scrollProgress64_range:
  assumes "0 < maxScroll win" and "0 \<le> scrollY win"
  shows "in_unit_interval (scrollProgress64 win)"
proof -
  let ?q = "scrollY win / maxScroll win"
  have q: "0 \<le> ?q" using assms by simp
  have d: "js_div64 (scrollY win) (maxScroll win) = round64 (Fin ?q)"
    using assms(1) by (simp add: js_div64_def js_div_def)
  show ?thesis
  proof (cases "2 ^ 1024 \<le> \<bar>rd ?q\<bar>")
    case True
    have "?q \<noteq> 0"
    proof
      assume "?q = 0"
      then have "rd ?q = 0" by (simp add: rd_def)
      with True show False by simp
    qed
    with q have "0 < ?q" by (simp only: less_le) simp
    with True have "round64 (Fin ?q) = PInf" by (simp add: round64.simps(1))
    then show ?thesis
      by (simp add: scrollProgress64_def d in_unit_interval_def)
  next
    case False
    then have "round64 (Fin ?q) = Fin (rd ?q)" by (simp add: round64.simps(1))
    moreover have "0 \<le> rd ?q" using q by (rule rd_nonneg)
    ultimately show ?thesis
      by (simp add: scrollProgress64_def d in_unit_interval_def)
  qed
qed

lemma scrollProgress64_range_witness:
  "0 < maxScroll \<lparr>innerWidth = 1280, innerHeight = 800, scrollY = 500, scrollHeight = 1400\<rparr>
   \<and> 0 \<le> scrollY \<lparr>innerWidth = 1280, innerHeight = 800, scrollY = 500, scrollHeight = 1400\<rparr>
   \<and> in_unit_interval
         (scrollProgress64 \<lparr>innerWidth = 1280, innerHeight = 800, scrollY = 500, scrollHeight = 1400\<rparr>)"
proof -
  let ?win = "\<lparr>innerWidth = 1280, innerHeight = 800, scrollY = 500, scrollHeight = 1400\<rparr>"
  have a: "0 < maxScroll ?win" by (simp add: maxScroll_def)
  have b: "0 \<le> scrollY ?win" by simp
  from scrollProgress64_range[OF a b] a b show ?thesis by blast
qed

text \<open>
  C2. The scroll progress is not always in \<open>[0, 1]\<close>, and a divisor that is not positive
  is not treated as progress 0: \<open>Math.min(scrollY / maxScroll, 1)\<close> bounds the quotient
  from above only and does not look at the divisor, although the comment on that line reads
  \<open>0 to 1\<close>. On a page exactly as tall as the viewport, at the top (\<open>scrollY = 0\<close>,
  \<open>scrollHeight = innerHeight = 800\<close>), the progress is \<open>0 / 0 = NaN\<close>, which is not in
  \<open>[0, 1]\<close>, and the frame draws no star at all; with a body shorter than the viewport and
  a positive scroll offset the progress is negative.
\<close>

theorem scrollProgress_degenerate:
  "scrollProgress \<lparr>innerWidth = 1280, innerHeight = 800, scrollY = 0, scrollHeight = 800\<rparr> = NaN
   \<and> \<not> in_unit_interval
         (scrollProgress \<lparr>innerWidth = 1280, innerHeight = 800, scrollY = 0, scrollHeight = 800\<rparr>)
   \<and> snd (snd (animate rnd
         \<lparr>innerWidth = 1280, innerHeight = 800, scrollY = 0, scrollHeight = 800\<rparr> f k)) = []
   \<and> scrollProgress \<lparr>innerWidth = 1280, innerHeight = 800, scrollY = 100, scrollHeight = 600\<rparr>
       = Fin (- 1 / 2)
   \<and> \<not> in_unit_interval
         (scrollProgress \<lparr>innerWidth = 1280, innerHeight = 800, scrollY = 100, scrollHeight = 600\<rparr>)"
proof -
  let ?win = "\<lparr>innerWidth = 1280, innerHeight = 800, scrollY = 0, scrollHeight = 800\<rparr>"
  have n: "scrollProgress ?win = NaN"
    by (simp add: scrollProgress_def maxScroll_def js_div_def)
  have "snd (snd (animate rnd ?win f k)) = []"
    unfolding animate_drawn_eq[of rnd ?win f k] n
    by (simp add: visibleThreshold_def)
  then show ?thesis
    by (simp add: scrollProgress_def maxScroll_def js_div_def in_unit_interval_def)
qed



section \<open>The update of a star\<close>







section \<open>The pool\<close>

text \<open>
  C5. For a pool of any length, the length is the same after any number of frames. Every
  \<open>resize\<close> discards the old pool: whatever the closure state and the canvas were, the new
  state has the width and height of the window and a pool of exactly 400 stars, each made by
  the constructor from six fresh draws, 2400 draws in all; that pool keeps its 400 stars
  through all later frames.
\<close>

theorem pool_length_constant:
  "length (stars (fst (frames rnd wins f k))) = length (stars f)
   \<and> length (stars (fst (animate rnd win f k))) = length (stars f)
   \<and> length (stars (fst (resize rnd win f c k))) = 400
   \<and> length (stars (fst (frames rnd wins (fst (resize rnd win f c k)) k'))) = 400
   \<and> fst (resize rnd win f c k)
       = \<lparr>width = innerWidth win, height = innerHeight win,
          stars = map (\<lambda>i. fst (new_Star rnd (innerWidth win) (innerHeight win) (k + 6 * i)))
                    [0..<400]\<rparr>
   \<and> snd (snd (resize rnd win f c k)) = k + 2400
   \<and> fst (resize rnd win f c k) = fst (resize rnd win f' c' k)"
proof -
  have r: "fst (resize rnd win g d k)
       = \<lparr>width = innerWidth win, height = innerHeight win,
          stars = map (\<lambda>i. fst (new_Star rnd (innerWidth win) (innerHeight win) (k + 6 * i)))
                    [0..<400]\<rparr>" for g d
    by (simp add: resize_def initStars_def push_Stars_eq baseStarCount_def Let_def)
  have n: "snd (snd (resize rnd win f c k)) = k + 2400"
    by (simp add: resize_def initStars_def push_Stars_eq baseStarCount_def Let_def)
  show ?thesis
    by (simp add: frames_length animate_stars forEach_star_length r n)
qed

theorem pool_length_constant_witness:
  "stars (fst (resize (\<lambda>i. real (i mod 7) / 8)
      \<lparr>innerWidth = 1280, innerHeight = 800, scrollY = 0, scrollHeight = 2400\<rparr>
      \<lparr>width = 1280, height = 800, stars =
       [\<lparr>star_x = 100, star_y = 50, star_z = 2, star_size = 1, star_opacity = 0.3,
         star_twinkleSpeed = 0.04, star_twinkleDir = 1\<rparr>,
        \<lparr>star_x = 700, star_y = 799.9, star_z = 1, star_size = 1, star_opacity = 0.5,
         star_twinkleSpeed = 0.01, star_twinkleDir = - 1\<rparr>]\<rparr>
       \<lparr>canvas_width = 300, canvas_height = 150, canvas_opacity = 0\<rparr> 0)) ! 1
     = \<lparr>star_x = 960, star_y = 400, star_z = 0.5, star_size = 0.1875, star_opacity = 0.225,
        star_twinkleSpeed = 0.01875, star_twinkleDir = 1\<rparr>
   \<and> length (stars
       (fst (resize (\<lambda>i. real (i mod 7) / 8)
       \<lparr>innerWidth = 1280, innerHeight = 800, scrollY = 0, scrollHeight = 2400\<rparr>
       \<lparr>width = 1280, height = 800, stars =
       [\<lparr>star_x = 100, star_y = 50, star_z = 2, star_size = 1, star_opacity = 0.3,
         star_twinkleSpeed = 0.04, star_twinkleDir = 1\<rparr>,
        \<lparr>star_x = 700, star_y = 799.9, star_z = 1, star_size = 1, star_opacity = 0.5,
         star_twinkleSpeed = 0.01, star_twinkleDir = - 1\<rparr>]\<rparr>
       \<lparr>canvas_width = 300, canvas_height = 150, canvas_opacity = 0\<rparr> 0))) = 400
   \<and> length (stars \<lparr>width = 1280, height = 800, stars =
       [\<lparr>star_x = 100, star_y = 50, star_z = 2, star_size = 1, star_opacity = 0.3,
         star_twinkleSpeed = 0.04, star_twinkleDir = 1\<rparr>,
        \<lparr>star_x = 700, star_y = 799.9, star_z = 1, star_size = 1, star_opacity = 0.5,
         star_twinkleSpeed = 0.01, star_twinkleDir = - 1\<rparr>]\<rparr>) = 2"
proof -
  let ?rnd = "\<lambda>i::nat. real (i mod 7) / 8"
  let ?c = "\<lparr>canvas_width = 300, canvas_height = 150, canvas_opacity = 0\<rparr>"
  let ?f = "\<lparr>width = 1280, height = 800, stars =
       [\<lparr>star_x = 100, star_y = 50, star_z = 2, star_size = 1, star_opacity = 0.3,
         star_twinkleSpeed = 0.04, star_twinkleDir = 1\<rparr>,
        \<lparr>star_x = 700, star_y = 799.9, star_z = 1, star_size = 1, star_opacity = 0.5,
         star_twinkleSpeed = 0.01, star_twinkleDir = - 1\<rparr>]\<rparr>"
  let ?w = "\<lparr>innerWidth = 1280, innerHeight = 800, scrollY = 0, scrollHeight = 2400\<rparr>"
  note t = pool_length_constant[of ?rnd "[]" ?f 0 ?w ?c 0 ?f ?c]
  from t have e:
      "fst (resize ?rnd
      \<lparr>innerWidth = 1280, innerHeight = 800, scrollY = 0, scrollHeight = 2400\<rparr>
      \<lparr>width = 1280, height = 800, stars =
       [\<lparr>star_x = 100, star_y = 50, star_z = 2, star_size = 1, star_opacity = 0.3,
         star_twinkleSpeed = 0.04, star_twinkleDir = 1\<rparr>,
        \<lparr>star_x = 700, star_y = 799.9, star_z = 1, star_size = 1, star_opacity = 0.5,
         star_twinkleSpeed = 0.01, star_twinkleDir = - 1\<rparr>]\<rparr> ?c 0)
       = \<lparr>width = innerWidth
           \<lparr>innerWidth = 1280, innerHeight = 800, scrollY = 0, scrollHeight = 2400\<rparr>, height = innerHeight
           \<lparr>innerWidth = 1280, innerHeight = 800, scrollY = 0, scrollHeight = 2400\<rparr>,
          stars = map (\<lambda>i. fst (new_Star ?rnd (innerWidth
              \<lparr>innerWidth = 1280, innerHeight = 800, scrollY = 0, scrollHeight = 2400\<rparr>) (innerHeight
              \<lparr>innerWidth = 1280, innerHeight = 800, scrollY = 0, scrollHeight = 2400\<rparr>) (0 + 6 * i)))
                    [0..<400]\<rparr>"
    by blast
  have a: "stars
      (fst (resize ?rnd
      \<lparr>innerWidth = 1280, innerHeight = 800, scrollY = 0, scrollHeight = 2400\<rparr>
      \<lparr>width = 1280, height = 800, stars =
       [\<lparr>star_x = 100, star_y = 50, star_z = 2, star_size = 1, star_opacity = 0.3,
         star_twinkleSpeed = 0.04, star_twinkleDir = 1\<rparr>,
        \<lparr>star_x = 700, star_y = 799.9, star_z = 1, star_size = 1, star_opacity = 0.5,
         star_twinkleSpeed = 0.01, star_twinkleDir = - 1\<rparr>]\<rparr> ?c 0)) ! 1
     = \<lparr>star_x = 960, star_y = 400, star_z = 0.5, star_size = 0.1875, star_opacity = 0.225,
        star_twinkleSpeed = 0.01875, star_twinkleDir = 1\<rparr>"
    unfolding e by (simp add: new_Star_eq)
  from t have b: "length (stars
      (fst (resize ?rnd
      \<lparr>innerWidth = 1280, innerHeight = 800, scrollY = 0, scrollHeight = 2400\<rparr>
      \<lparr>width = 1280, height = 800, stars =
       [\<lparr>star_x = 100, star_y = 50, star_z = 2, star_size = 1, star_opacity = 0.3,
         star_twinkleSpeed = 0.04, star_twinkleDir = 1\<rparr>,
        \<lparr>star_x = 700, star_y = 799.9, star_z = 1, star_size = 1, star_opacity = 0.5,
         star_twinkleSpeed = 0.01, star_twinkleDir = - 1\<rparr>]\<rparr> ?c 0))) = 400" by blast
  have c: "length (stars \<lparr>width = 1280, height = 800, stars =
       [\<lparr>star_x = 100, star_y = 50, star_z = 2, star_size = 1, star_opacity = 0.3,
         star_twinkleSpeed = 0.04, star_twinkleDir = 1\<rparr>,
        \<lparr>star_x = 700, star_y = 799.9, star_z = 1, star_size = 1, star_opacity = 0.5,
         star_twinkleSpeed = 0.01, star_twinkleDir = - 1\<rparr>]\<rparr>) = 2" by simp
  from a b c show ?thesis by blast
qed



section \<open>The outcomes of start-up\<close>

text \<open>
  C9. Without the canvas element, \<open>initSpaceBackground\<close> does nothing: no state is
  built, no error is raised and no random number is drawn, and this is the only way to end
  without a state and without an error. It is not the only way not to start: an element that
  is no canvas raises a \<open>TypeError\<close> before anything is built, and a canvas without a 2D
  context raises a \<open>TypeError\<close> in the first frame, when the resize listener is registered
  and the pool of 400 stars is built, and no frame is requested. With a canvas and a context
  the background starts: 400 stars, the listener, the next frame requested.
\<close>

theorem initSpaceBackground_outcomes:
  "initSpaceBackground rnd win None k = (None, None, k)
   \<and> initSpaceBackground rnd win (Some OtherElement) k = (None, Some TypeError, k)
   \<and> initSpaceBackground rnd win (Some (CanvasElement c False)) k
       = (Some \<lparr>bg_canvas = fst (snd (resize rnd win \<lparr>width = 0, height = 0, stars = []\<rparr> c k)),
                 bg_field = fst (resize rnd win \<lparr>width = 0, height = 0, stars = []\<rparr> c k),
                 bg_resize_listener = True, bg_frame_requested = False\<rparr>,
          Some TypeError, k + 2400)
   \<and> initSpaceBackground rnd win (Some (CanvasElement c True)) k
       = (Some \<lparr>bg_canvas = fst (snd (resize rnd win \<lparr>width = 0, height = 0, stars = []\<rparr> c k)),
                 bg_field = fst (animate rnd win
                    (fst (resize rnd win \<lparr>width = 0, height = 0, stars = []\<rparr> c k)) (k + 2400)),
                 bg_resize_listener = True, bg_frame_requested = True\<rparr>,
          None,
          fst (snd (animate rnd win
             (fst (resize rnd win \<lparr>width = 0, height = 0, stars = []\<rparr> c k)) (k + 2400))))
   \<and> fst (snd (resize rnd win \<lparr>width = 0, height = 0, stars = []\<rparr> c k))
       = \<lparr>canvas_width = innerWidth win, canvas_height = innerHeight win, canvas_opacity = 1\<rparr>
   \<and> length (stars (fst (resize rnd win \<lparr>width = 0, height = 0, stars = []\<rparr> c k))) = 400
   \<and> length (stars (fst (animate rnd win
          (fst (resize rnd win \<lparr>width = 0, height = 0, stars = []\<rparr> c k)) (k + 2400)))) = 400
   \<and> (case initSpaceBackground rnd win (Some (CanvasElement c False)) k of
         (bg, err, k') \<Rightarrow>
           err = Some TypeError \<and> k' = k + 2400
           \<and> (case bg of
                 None \<Rightarrow> False
               | Some b \<Rightarrow> bg_field b = fst (resize rnd win \<lparr>width = 0, height = 0, stars = []\<rparr> c k)
                           \<and> length (stars (bg_field b)) = 400
                           \<and> bg_resize_listener b \<and> \<not> bg_frame_requested b))
   \<and> (case initSpaceBackground rnd win (Some (CanvasElement c True)) k of
         (bg, err, k') \<Rightarrow>
           err = None
           \<and> (case bg of
                 None \<Rightarrow> False
               | Some b \<Rightarrow> length (stars (bg_field b)) = 400
                           \<and> bg_resize_listener b \<and> bg_frame_requested b))
   \<and> (fst (initSpaceBackground rnd win el k) = None
        \<and> fst (snd (initSpaceBackground rnd win el k)) = None) = (el = None)
   \<and> (fst (snd (initSpaceBackground rnd win el k)) = Some TypeError)
       = (el = Some OtherElement \<or> (\<exists>c. el = Some (CanvasElement c False)))"
proof -
  let ?f0 = "\<lparr>width = 0, height = 0, stars = []\<rparr>"
  have l: "length (stars (fst (resize rnd win ?f0 c k))) = 400"
    by (simp add: resize_stars baseStarCount_def)
  have n: "snd (snd (resize rnd win ?f0 c k)) = k + 2400"
    by (simp add: resize_def initStars_def push_Stars_eq baseStarCount_def Let_def)
  have cv: "fst (snd (resize rnd win ?f0 c k))
       = \<lparr>canvas_width = innerWidth win, canvas_height = innerHeight win, canvas_opacity = 1\<rparr>"
    by (simp add: resize_def initStars_def push_Stars_eq Let_def)
  have la: "length (stars (fst (animate rnd win (fst (resize rnd win ?f0 c k)) (k + 2400)))) = 400"
    by (simp add: animate_stars forEach_star_length l)
  have a: "initSpaceBackground rnd win None k = (None, None, k)"
    and b: "initSpaceBackground rnd win (Some OtherElement) k = (None, Some TypeError, k)"
    by (simp_all add: initSpaceBackground_def)
  have c0: "initSpaceBackground rnd win (Some (CanvasElement c False)) k
       = (Some \<lparr>bg_canvas = fst (snd (resize rnd win ?f0 c k)),
                 bg_field = fst (resize rnd win ?f0 c k),
                 bg_resize_listener = True, bg_frame_requested = False\<rparr>,
          Some TypeError, k + 2400)"
    using n by (simp add: initSpaceBackground_def split_def)
  have d0: "initSpaceBackground rnd win (Some (CanvasElement c True)) k
       = (Some \<lparr>bg_canvas = fst (snd (resize rnd win ?f0 c k)),
                 bg_field = fst (animate rnd win (fst (resize rnd win ?f0 c k)) (k + 2400)),
                 bg_resize_listener = True, bg_frame_requested = True\<rparr>,
          None,
          fst (snd (animate rnd win (fst (resize rnd win ?f0 c k)) (k + 2400))))"
    using n by (simp add: initSpaceBackground_def split_def)
  have c1: "case initSpaceBackground rnd win (Some (CanvasElement c False)) k of
         (bg, err, k') \<Rightarrow>
           err = Some TypeError \<and> k' = k + 2400
           \<and> (case bg of
                 None \<Rightarrow> False
               | Some b \<Rightarrow> bg_field b = fst (resize rnd win ?f0 c k)
                           \<and> length (stars (bg_field b)) = 400
                           \<and> bg_resize_listener b \<and> \<not> bg_frame_requested b)"
    unfolding c0 using l by simp
  have d1: "case initSpaceBackground rnd win (Some (CanvasElement c True)) k of
         (bg, err, k') \<Rightarrow>
           err = None
           \<and> (case bg of
                 None \<Rightarrow> False
               | Some b \<Rightarrow> length (stars (bg_field b)) = 400
                           \<and> bg_resize_listener b \<and> bg_frame_requested b)"
    unfolding d0 using la by simp
  have e: "(fst (initSpaceBackground rnd win el k) = None
        \<and> fst (snd (initSpaceBackground rnd win el k)) = None) = (el = None)"
    by (simp add: initSpaceBackground_def split_def split: option.splits element.splits)
  have g: "(fst (snd (initSpaceBackground rnd win el k)) = Some TypeError)
       = (el = Some OtherElement \<or> (\<exists>c. el = Some (CanvasElement c False)))"
    by (auto simp: initSpaceBackground_def split_def split: option.splits element.splits)
  from a b c0 d0 cv l la c1 d1 e g show ?thesis by blast
qed

text \<open>
  The missing canvas is not the only failure mode (C9): a canvas whose
  \<open>getContext('2d')\<close> returns \<open>null\<close> ends in a \<open>TypeError\<close>, with the pool built and
  the listener registered; so does an element that is no canvas, with nothing built.
\<close>

theorem initSpaceBackground_null_context_counterexample:
  "fst (snd (initSpaceBackground (\<lambda>i. 1 / 2) \<lparr>innerWidth = 1280, innerHeight = 800, scrollY = 0, scrollHeight = 2400\<rparr>
       (Some (CanvasElement \<lparr>canvas_width = 300, canvas_height = 150, canvas_opacity = 0\<rparr> False))
       0)) = Some TypeError
   \<and> map_option (\<lambda>b. (length (stars (bg_field b)), bg_resize_listener b, bg_frame_requested b))
       (fst (initSpaceBackground (\<lambda>i. 1 / 2) \<lparr>innerWidth = 1280, innerHeight = 800, scrollY = 0, scrollHeight = 2400\<rparr>
         (Some (CanvasElement \<lparr>canvas_width = 300, canvas_height = 150, canvas_opacity = 0\<rparr> False))
         0)) = Some (400, True, False)
   \<and> initSpaceBackground (\<lambda>i. 1 / 2)
       \<lparr>innerWidth = 1280, innerHeight = 800, scrollY = 0, scrollHeight = 2400\<rparr> (Some OtherElement) 0 = (None, Some TypeError, 0)"
  by (simp add: initSpaceBackground_def split_def resize_stars baseStarCount_def)

section \<open>Stopping the glyph rain\<close>

text \<open>
  C10. \<open>stopMatrixRain\<close> clears the timer that \<open>matrixInterval\<close> names and removes the
  first element with the id \<open>matrix-rain\<close>. On every page reached from the initial one by
  completed key sequences, timer ticks and window resizes, no timer is active and no overlay
  is left after \<open>stopMatrixRain\<close>, so that no tick draws anything any more; and on a page
  without an overlay, \<open>stopMatrixRain\<close> changes nothing.
\<close>

theorem stopMatrixRain_stops:
  "(let pg = stopMatrixRain (fst (run rnd evs (initial_page m) k))
    in intervals pg = [] \<and> overlays pg = []
       \<and> (\<forall>rnd' t k'. interval_fires rnd' t pg k' = (pg, k', [])))
   \<and> stopMatrixRain (initial_page m) = initial_page m
   \<and> (\<forall>pg. intervals (stopMatrixRain pg) =
         (case matrixInterval pg of
            None \<Rightarrow> intervals pg
          | Some n \<Rightarrow> removeAll n (intervals pg)))
   \<and> (\<forall>pg. overlays (stopMatrixRain pg) = tl (overlays pg))"
proof -
  let ?pg = "stopMatrixRain (fst (run rnd evs (initial_page m) k))"
  have "rain_inv (fst (run rnd evs (initial_page m) k))"
    by (rule rain_inv_run[OF rain_inv_initial])
  then have e: "overlays ?pg = [] \<and> intervals ?pg = []" by (rule rain_inv_stop)
  then have "\<forall>rnd' t k'. interval_fires rnd' t ?pg k' = (?pg, k', [])"
    by (simp add: interval_fires_idle)
  moreover have "stopMatrixRain (initial_page m) = initial_page m"
    by (simp add: stopMatrixRain_def clearInterval_def initial_page_def)
  ultimately show ?thesis
    using e by (simp add: Let_def stopMatrixRain_overlays stopMatrixRain_intervals)
qed

theorem stopMatrixRain_stops_witness:
  "intervals (fst (run (\<lambda>i. 1 / 2)
       [KonamiCode \<lparr>innerWidth = 48, innerHeight = 32, scrollY = 0, scrollHeight = 2400\<rparr>]
       (initial_page False) 0)) = [1]
   \<and> overlays (fst (run (\<lambda>i. 1 / 2)
       [KonamiCode \<lparr>innerWidth = 48, innerHeight = 32, scrollY = 0, scrollHeight = 2400\<rparr>]
       (initial_page False) 0)) = [1]
   \<and> snd (snd (interval_fires (\<lambda>i. 1 / 2) 1 (fst (run (\<lambda>i. 1 / 2)
       [KonamiCode \<lparr>innerWidth = 48, innerHeight = 32, scrollY = 0, scrollHeight = 2400\<rparr>]
       (initial_page False) 0)) 0))
       = [FillRect 48 32, FillText 65 0 16, FillText 65 16 16, FillText 65 32 16]
   \<and> intervals (stopMatrixRain (fst (run (\<lambda>i. 1 / 2)
       [KonamiCode \<lparr>innerWidth = 48, innerHeight = 32, scrollY = 0, scrollHeight = 2400\<rparr>]
       (initial_page False) 0))) = []
   \<and> overlays (stopMatrixRain (fst (run (\<lambda>i. 1 / 2)
       [KonamiCode \<lparr>innerWidth = 48, innerHeight = 32, scrollY = 0, scrollHeight = 2400\<rparr>]
       (initial_page False) 0))) = []
   \<and> snd (snd (interval_fires (\<lambda>i. 1 / 2) 1 (stopMatrixRain (fst (run (\<lambda>i. 1 / 2)
       [KonamiCode \<lparr>innerWidth = 48, innerHeight = 32, scrollY = 0, scrollHeight = 2400\<rparr>]
       (initial_page False) 0))) 0)) = []"
proof -
  let ?rnd = "\<lambda>i::nat. 1 / 2 :: real"
  let ?win = "\<lparr>innerWidth = 48, innerHeight = 32, scrollY = 0, scrollHeight = 2400\<rparr>"
  let ?pg = "fst (run ?rnd [KonamiCode ?win] (initial_page False) 0)"
  have c: "nat \<lceil>(48::real) / 16\<rceil> = 3" by simp
  have pg: "?pg = \<lparr>matrix_mode = True, matrixInterval = Some 1, next_id = 2, overlays = [1],
      intervals = [1],
      rains = (\<lambda>n. None)(1 := Some \<lparr>rain_canvas_width = 48, rain_canvas_height = 32,
                                        rainDrops = [1, 1, 1]\<rparr>),
      resize_listeners = [1]\<rparr>"
    by (simp add: toggleMatrixMode_def startMatrixRain_def initial_page_def Let_def fontSize_def
        eval_nat_numeral)
  have a: "intervals ?pg = [1]" and b: "overlays ?pg = [1]"
    unfolding pg by simp_all
  have f: "\<lfloor>(65::real)\<rfloor> = 65" by simp
  have d: "snd (snd (interval_fires ?rnd 1 ?pg 0))
       = [FillRect 48 32, FillText 65 0 16, FillText 65 16 16, FillText 65 32 16]"
    unfolding pg
    by (simp add: interval_fires_def draw_def Math_random_def fontSize_def alphabet_length_def)
  note t = stopMatrixRain_stops[of ?rnd "[KonamiCode ?win]" False 0, unfolded Let_def]
  from t have e: "intervals (stopMatrixRain ?pg) = []" and g: "overlays (stopMatrixRain ?pg) = []"
    by blast+
  from t have "interval_fires ?rnd 1 (stopMatrixRain ?pg) 0 = (stopMatrixRain ?pg, 0, [])"
    by blast
  then have h: "snd (snd (interval_fires ?rnd 1 (stopMatrixRain ?pg) 0)) = []"
    by (simp only: snd_conv)
  from a b d e g h show ?thesis by blast
qed

end
